theory Spec2Isabelle
  imports Main "HOL-Library.Sublist" "HOL-Library.Char_ord"
begin

section \<open>Go values shared by the actuators\<close>

text \<open>
  Go strings are byte sequences and are modelled as \<open>string\<close>. A pointer field
  (\<open>*string\<close>, \<open>*bool\<close>, \<open>*int64\<close>, a pointer to a struct) is an \<open>option\<close>, with
  \<open>None\<close> for \<open>nil\<close>. A Go function returning \<open>(T, error)\<close> returns \<open>error + T\<close>;
  a nil-pointer dereference or an index out of range is the value
  \<open>Inl NilPointerDereference\<close> resp. \<open>Inl IndexOutOfRange\<close>, so that a run-time panic
  is never mistaken for a returned error. Logging (\<open>klog\<close>, \<open>logr\<close>) has no effect on any
  result and is left out.
\<close>

datatype MachineErrorReason = InvalidConfigurationMachineError | CreateMachineError

text \<open>
  Errors keep the format string and the arguments they were built from:
  \<open>errors.New\<close>, \<open>fmt.Errorf\<close>, the two constructors of \<open>mapierrors\<close> used here
  (\<open>InvalidMachineConfiguration\<close>, \<open>CreateMachine\<close>), and the two shapes of an AWS SDK
  error: a plain \<open>awserr.Error\<close> (code, message) and an \<open>awserr.RequestFailure\<close>
  (code, message, HTTP status code).
\<close>

datatype farg = S string | I int | E error
  and error =
      New string
    | Errorf string "farg list"
    | MachineError MachineErrorReason string "farg list"
    | AWSError string string
    | RequestFailure string string int
    | NilPointerDereference
    | IndexOutOfRange

definition InvalidMachineConfiguration :: "string \<Rightarrow> farg list \<Rightarrow> error" where
  "InvalidMachineConfiguration fmt args = MachineError InvalidConfigurationMachineError fmt args"

definition CreateMachine :: "string \<Rightarrow> farg list \<Rightarrow> error" where
  "CreateMachine fmt args = MachineError CreateMachineError fmt args"

text \<open>\<open>aws.StringValue\<close>: the string behind the pointer, the empty string for \<open>nil\<close>.\<close>

definition StringValue :: "string option \<Rightarrow> string" where
  "StringValue p = (case p of None \<Rightarrow> [] | Some s \<Rightarrow> s)"

text \<open>\<open>strings.HasPrefix s p\<close>.\<close>

definition HasPrefix :: "string \<Rightarrow> string \<Rightarrow> bool" where
  "HasPrefix s p = prefix p s"

section \<open>Tags (package machine, instances.go)\<close>

text \<open>\<open>machinev1beta1.TagSpecification\<close>, \<open>configv1.AWSResourceTag\<close> and \<open>ec2.Tag\<close>.\<close>

record TagSpecification =
  tsName :: string
  tsValue :: string

record AWSResourceTag =
  rtKey :: string
  rtValue :: string

record Tag =
  Key :: "string option"
  Value :: "string option"

text \<open>
  \<open>configv1.Infrastructure\<close>, down to the fields read here. \<open>ResourceTags\<close> is a slice
  that the code compares with \<open>nil\<close>, hence an optional list.
\<close>

record AWSPlatformStatus =
  Region :: string
  ResourceTags :: "AWSResourceTag list option"

record PlatformStatus =
  AWS :: "AWSPlatformStatus option"

record InfrastructureStatus =
  InfrastructureName :: string
  PlatformStatus :: "PlatformStatus option"

record Infrastructure =
  Status :: InfrastructureStatus

text \<open>
  \<open>removeDuplicatedTags\<close>: the loop over \<open>tags\<close> with the map \<open>m\<close> of keys seen and the
  slice \<open>result\<close>. \<open>*entry.Key\<close> panics on a tag without key.
\<close>

fun removeDuplicatedTags_loop ::
  "Tag list \<Rightarrow> (string \<rightharpoonup> bool) \<Rightarrow> Tag list \<Rightarrow> error + Tag list" where
  "removeDuplicatedTags_loop [] m result = Inr result"
| "removeDuplicatedTags_loop (entry # tags) m result =
     (case Key entry of
        None \<Rightarrow> Inl NilPointerDereference
      | Some k \<Rightarrow>
          if m k = None
          then removeDuplicatedTags_loop tags (m(k \<mapsto> True)) (result @ [entry])
          else removeDuplicatedTags_loop tags m result)"

definition removeDuplicatedTags :: "Tag list \<Rightarrow> error + Tag list" where
  "removeDuplicatedTags tags = removeDuplicatedTags_loop tags Map.empty []"

definition mergeInfrastructureAndMachineSpecTags ::
  "TagSpecification list \<Rightarrow> Infrastructure option \<Rightarrow> TagSpecification list" where
  "mergeInfrastructureAndMachineSpecTags machineSpecTags infra =
     (case infra of
        None \<Rightarrow> machineSpecTags
      | Some i \<Rightarrow>
         (case PlatformStatus (Status i) of
            None \<Rightarrow> machineSpecTags
          | Some ps \<Rightarrow>
             (case AWS ps of
                None \<Rightarrow> machineSpecTags
              | Some a \<Rightarrow>
                 (case ResourceTags a of
                    None \<Rightarrow> machineSpecTags
                  | Some rts \<Rightarrow>
                      machineSpecTags @
                      map (\<lambda>tag. \<lparr>tsName = rtKey tag, tsValue = rtValue tag\<rparr>) rts))))"

definition buildTagList ::
  "string \<Rightarrow> string \<Rightarrow> TagSpecification list \<Rightarrow> Infrastructure option \<Rightarrow> error + Tag list"
  where
  "buildTagList machineName clusterID machineTags infra =
     (let mergedTags = mergeInfrastructureAndMachineSpecTags machineTags infra;
          rawTagList =
            map (\<lambda>tag. \<lparr>Key = Some (tsName tag), Value = Some (tsValue tag)\<rparr>)
              (filter (\<lambda>tag. \<not> HasPrefix (tsName tag) ''kubernetes.io/cluster/''
                              \<and> tsName tag \<noteq> ''Name'') mergedTags);
          rawTagList' = rawTagList @
            [\<lparr>Key = Some (''kubernetes.io/cluster/'' @ clusterID), Value = Some ''owned''\<rparr>,
             \<lparr>Key = Some ''Name'', Value = Some machineName\<rparr>]
      in removeDuplicatedTags rawTagList')"

text \<open>
  The tag list as the specification words it. The merged list is the machine-spec tags
  followed by the resource tags of the infrastructure object (none when the object, its
  platform status, its AWS status or its resource tags are absent); of that list the first
  occurrence of every key is kept, the user tags on a reserved key are dropped, and the
  reserved pair is appended.
\<close>

definition infrastructureTags :: "Infrastructure option \<Rightarrow> TagSpecification list" where
  "infrastructureTags infra =
     (case infra of
        None \<Rightarrow> []
      | Some i \<Rightarrow>
         (case PlatformStatus (Status i) of
            None \<Rightarrow> []
          | Some ps \<Rightarrow>
             (case AWS ps of
                None \<Rightarrow> []
              | Some a \<Rightarrow>
                 (case ResourceTags a of
                    None \<Rightarrow> []
                  | Some rts \<Rightarrow> map (\<lambda>t. \<lparr>tsName = rtKey t, tsValue = rtValue t\<rparr>) rts))))"

fun firstOccurrences :: "TagSpecification list \<Rightarrow> TagSpecification list" where
  "firstOccurrences [] = []"
| "firstOccurrences (t # ts) = t # filter (\<lambda>u. tsName u \<noteq> tsName t) (firstOccurrences ts)"

definition reservedKey :: "string \<Rightarrow> bool" where
  "reservedKey k = (k = ''Name'' \<or> prefix ''kubernetes.io/cluster/'' k)"

definition reservedTags :: "string \<Rightarrow> string \<Rightarrow> Tag list" where
  "reservedTags machineName clusterID =
     [\<lparr>Key = Some (''kubernetes.io/cluster/'' @ clusterID), Value = Some ''owned''\<rparr>,
      \<lparr>Key = Some ''Name'', Value = Some machineName\<rparr>]"

definition userTags :: "TagSpecification list \<Rightarrow> Infrastructure option \<Rightarrow> Tag list" where
  "userTags machineTags infra =
     map (\<lambda>tag. \<lparr>Key = Some (tsName tag), Value = Some (tsValue tag)\<rparr>)
       (filter (\<lambda>tag. \<not> reservedKey (tsName tag))
          (firstOccurrences (machineTags @ infrastructureTags infra)))"

definition buildTagList_spec ::
  "string \<Rightarrow> string \<Rightarrow> TagSpecification list \<Rightarrow> Infrastructure option \<Rightarrow> Tag list" where
  "buildTagList_spec machineName clusterID machineTags infra =
     userTags machineTags infra @ reservedTags machineName clusterID"

section \<open>The machine provider configuration (machinev1beta1)\<close>

text \<open>
  \<open>machinev1beta1.AWSMachineProviderConfig\<close> and the types below it, with the fields the
  actuator reads. \<open>Filters\<close> is a slice that the code compares with \<open>nil\<close> in one place,
  hence an optional list. \<open>MarketType\<close>, \<open>InstanceTenancy\<close>,
  \<open>AWSNetworkInterfaceType\<close> and \<open>MetadataServiceAuthentication\<close> are string types in Go
  and stay strings, so that an invalid value is a value of the type.
\<close>

record Filter =
  fName :: string
  fValues :: "string list"

record AWSResourceReference =
  ID :: "string option"
  ARN :: "string option"
  Filters :: "Filter list option"

record Placement =
  plRegion :: string
  AvailabilityZone :: string
  Tenancy :: string

record EBSBlockDeviceSpec =
  Encrypted :: "bool option"
  VolumeSize :: "int option"
  VolumeType :: "string option"
  Iops :: "int option"
  KMSKey :: AWSResourceReference

record BlockDeviceMappingSpec =
  DeviceName :: "string option"
  EBS :: "EBSBlockDeviceSpec option"

record SpotMarketOptions =
  MaxPrice :: "string option"

record MetadataServiceOptions =
  Authentication :: string

record LocalObjectReference =
  lorName :: string

record AWSMachineProviderConfig =
  AMI :: AWSResourceReference
  InstanceType :: string
  Tags :: "TagSpecification list"
  IAMInstanceProfile :: "AWSResourceReference option"
  CredentialsSecret :: "LocalObjectReference option"
  KeyName :: "string option"
  DeviceIndex :: int
  PublicIP :: "bool option"
  NetworkInterfaceType :: string
  SecurityGroups :: "AWSResourceReference list"
  Subnet :: AWSResourceReference
  Placement :: Placement
  BlockDevices :: "BlockDeviceMappingSpec list"
  SpotMarketOptions :: "SpotMarketOptions option"
  MetadataServiceOptions :: MetadataServiceOptions
  PlacementGroupName :: string
  PlacementGroupPartition :: "int option"
  CapacityReservationID :: string
  MarketType :: string

text \<open>
  The constants that the code names, with the values they have in \<open>openshift/api\<close>
  (\<open>machinev1beta1\<close>) and in \<open>aws-sdk-go\<close> (\<open>ec2\<close>).
\<close>

definition MarketTypeOnDemand :: string where "MarketTypeOnDemand = ''OnDemand''"
definition MarketTypeSpot :: string where "MarketTypeSpot = ''Spot''"
definition MarketTypeCapacityBlock :: string where "MarketTypeCapacityBlock = ''CapacityBlock''"

definition ec2MarketTypeSpot :: string where "ec2MarketTypeSpot = ''spot''"
definition ec2MarketTypeCapacityBlock :: string where
  "ec2MarketTypeCapacityBlock = ''capacity-block''"
definition InstanceInterruptionBehaviorTerminate :: string where
  "InstanceInterruptionBehaviorTerminate = ''terminate''"
definition SpotInstanceTypeOneTime :: string where "SpotInstanceTypeOneTime = ''one-time''"

section \<open>Market options and capacity reservations (instances.go)\<close>

text \<open>
  \<open>ec2.SpotMarketOptions\<close> and \<open>ec2.InstanceMarketOptionsRequest\<close>. A field of an
  \<open>ec2\<close> struct whose name a field of the API types already has carries the prefix
  \<open>ec2\<close>.
\<close>

record ec2SpotMarketOptions =
  InstanceInterruptionBehavior :: "string option"
  SpotInstanceType :: "string option"
  ec2MaxPrice :: "string option"

record InstanceMarketOptionsRequest =
  ec2MarketType :: "string option"
  SpotOptions :: "ec2SpotMarketOptions option"

text \<open>
  \<open>getInstanceMarketOptionsRequest\<close> writes the inferred market type into the
  configuration it is given a pointer to: the model returns the configuration next to the
  result. Reading \<open>providerConfig.SpotMarketOptions.MaxPrice\<close> panics when the market
  type is \<open>Spot\<close> and there are no spot options.
\<close>

definition getInstanceMarketOptionsRequest ::
  "AWSMachineProviderConfig \<Rightarrow>
     (error + InstanceMarketOptionsRequest option) \<times> AWSMachineProviderConfig" where
  "getInstanceMarketOptionsRequest providerConfig =
     (if MarketType providerConfig \<noteq> [] \<and> MarketType providerConfig = MarketTypeCapacityBlock
         \<and> SpotMarketOptions providerConfig \<noteq> None
      then (Inl (New ''can't create spot capacity-blocks, remove spot market request''),
            providerConfig)
      else
        let pc1 = (if SpotMarketOptions providerConfig \<noteq> None \<and> MarketType providerConfig = []
                   then providerConfig\<lparr>MarketType := MarketTypeSpot\<rparr> else providerConfig);
            pc2 = (if MarketType pc1 = [] then pc1\<lparr>MarketType := MarketTypeOnDemand\<rparr> else pc1)
        in
          if MarketType pc2 = MarketTypeCapacityBlock then
            (if CapacityReservationID pc2 = []
             then (Inl (New ''capacityReservationID is required when CapacityBlock is enabled''),
                   pc2)
             else (Inr (Some \<lparr>ec2MarketType = Some ec2MarketTypeCapacityBlock,
                               SpotOptions = None\<rparr>), pc2))
          else if MarketType pc2 = MarketTypeSpot then
            (case SpotMarketOptions pc2 of
               None \<Rightarrow> (Inl NilPointerDereference, pc2)
             | Some so \<Rightarrow>
                 let maxPrice = StringValue (MaxPrice so);
                     spotOpts = \<lparr>InstanceInterruptionBehavior =
                                   Some InstanceInterruptionBehaviorTerminate,
                                 SpotInstanceType = Some SpotInstanceTypeOneTime,
                                 ec2MaxPrice = (if maxPrice \<noteq> [] then Some maxPrice else None)\<rparr>
                 in (Inr (Some \<lparr>ec2MarketType = Some ec2MarketTypeSpot,
                                   SpotOptions = Some spotOpts\<rparr>), pc2))
          else if MarketType pc2 = MarketTypeOnDemand then (Inr None, pc2)
          else (Inl (Errorf ''invalid MarketType %q'' [S (MarketType pc2)]), pc2))"

text \<open>
  The compiled pattern of \<open>regexp.MustCompile\<close>, for the constructs this package uses:
  a literal byte, a class of byte ranges, concatenation and bounded repetition
  \<open>r{n}\<close>. \<open>remainders r s\<close> lists what is left of \<open>s\<close> after each way of matching \<open>r\<close>
  at its start; a pattern anchored by \<open>^\<close> and \<open>$\<close> matches when nothing can be left.
\<close>

datatype regex =
    Lit char
  | Class "(char \<times> char) list"
  | Seq regex regex
  | Rep nat regex

primrec regex_size :: "regex \<Rightarrow> nat" where
  "regex_size (Lit c) = 1"
| "regex_size (Class rs) = 1"
| "regex_size (Seq r1 r2) = regex_size r1 + regex_size r2 + 1"
| "regex_size (Rep n r) = n + regex_size r + 1"

function remainders :: "regex \<Rightarrow> string \<Rightarrow> string list" where
  "remainders (Lit c) s = (case s of [] \<Rightarrow> [] | x # xs \<Rightarrow> if x = c then [xs] else [])"
| "remainders (Class rs) s =
     (case s of [] \<Rightarrow> []
      | x # xs \<Rightarrow> if list_ex (\<lambda>(lo, hi). lo \<le> x \<and> x \<le> hi) rs then [xs] else [])"
| "remainders (Seq r1 r2) s = concat (map (remainders r2) (remainders r1 s))"
| "remainders (Rep 0 r) s = [s]"
| "remainders (Rep (Suc n) r) s = concat (map (remainders (Rep n r)) (remainders r s))"
  by pat_completeness auto
termination
  by (relation "measure (\<lambda>(r, s). regex_size r)") auto

definition MatchString_anchored :: "regex \<Rightarrow> string \<Rightarrow> bool" where
  "MatchString_anchored r s = ([] \<in> set (remainders r s))"

text \<open>The pattern \<^verbatim>\<open>^cr-[0-9a-f]{17}$\<close>.\<close>

definition capacityReservationPattern :: regex where
  "capacityReservationPattern =
     Seq (Lit CHR ''c'') (Seq (Lit CHR ''r'') (Seq (Lit CHR ''-'')
       (Rep 17 (Class [(CHR ''0'', CHR ''9''), (CHR ''a'', CHR ''f'')]))))"

record CapacityReservationTarget =
  CapacityReservationId :: "string option"

record CapacityReservationSpecification =
  CapacityReservationTarget :: "CapacityReservationTarget option"

definition getCapacityReservationSpecification ::
  "string \<Rightarrow> error + CapacityReservationSpecification option" where
  "getCapacityReservationSpecification capacityReservationID =
     (if capacityReservationID = [] then Inr None
      else if \<not> MatchString_anchored capacityReservationPattern capacityReservationID
      then Inl (InvalidMachineConfiguration
        ''Invalid value for capacityReservationId: %q, it must start with 'cr-' and be exactly 20 characters long with 17 hexadecimal characters.''
        [S capacityReservationID])
      else Inr (Some \<lparr>CapacityReservationTarget =
                         Some \<lparr>CapacityReservationId = Some capacityReservationID\<rparr>\<rparr>))"

text \<open>
  The identifiers the specification describes: 20 characters, the prefix \<open>cr-\<close>, then
  17 lowercase hexadecimal digits.
\<close>

definition lowerHexDigit :: "char \<Rightarrow> bool" where
  "lowerHexDigit c = (c \<in> set ''0123456789abcdef'')"

definition validCapacityReservationID :: "string \<Rightarrow> bool" where
  "validCapacityReservationID s =
     (length s = 20 \<and> take 3 s = ''cr-'' \<and> list_all lowerHexDigit (drop 3 s))"

text \<open>
  A provider configuration with nothing set, from which the examples below are built by
  record update.
\<close>

definition emptyResourceReference :: AWSResourceReference where
  "emptyResourceReference = \<lparr>ID = None, ARN = None, Filters = None\<rparr>"

definition emptyProviderConfig :: AWSMachineProviderConfig where
  "emptyProviderConfig =
     \<lparr>AMI = emptyResourceReference, InstanceType = [], Tags = [], IAMInstanceProfile = None,
      CredentialsSecret = None, KeyName = None, DeviceIndex = 0, PublicIP = None,
      NetworkInterfaceType = [], SecurityGroups = [], Subnet = emptyResourceReference,
      Placement = \<lparr>plRegion = [], AvailabilityZone = [], Tenancy = []\<rparr>,
      BlockDevices = [], SpotMarketOptions = None,
      MetadataServiceOptions = \<lparr>Authentication = []\<rparr>,
      PlacementGroupName = [], PlacementGroupPartition = None, CapacityReservationID = [],
      MarketType = []\<rparr>"

section \<open>The EC2 API and the AWS client (aws-sdk-go, package client)\<close>

text \<open>
  The input and output structures of the EC2 calls the actuators make, with the fields the
  code sets or reads; every other field of an input stays at its zero value. A field whose
  name another record already has carries a prefix for its structure. The elements of a
  slice of pointers in an output are taken to be allocated, except for the placement groups,
  which the code itself tests against \<open>nil\<close>.
\<close>

record ec2Filter =
  efName :: "string option"
  efValues :: "string option list"

record DescribeSecurityGroupsInput =
  dsgFilters :: "ec2Filter list"

record SecurityGroup =
  GroupId :: "string option"

record DescribeSecurityGroupsOutput =
  dsgSecurityGroups :: "SecurityGroup list"

record DescribeAvailabilityZonesInput =
  dazDryRun :: "bool option"
  ZoneNames :: "string option list"

record ec2AvailabilityZone =
  ZoneType :: "string option"

record DescribeAvailabilityZonesOutput =
  AvailabilityZones :: "ec2AvailabilityZone list"

record DescribeSubnetsInput =
  dsDryRun :: "bool option"
  SubnetIds :: "string option list"
  dsFilters :: "ec2Filter list"

record ec2Subnet =
  SubnetId :: "string option"
  snAvailabilityZone :: "string option"

record DescribeSubnetsOutput =
  Subnets :: "ec2Subnet list"

record DescribeImagesInput =
  diFilters :: "ec2Filter list"
  ImageIds :: "string option list"

record Image =
  ImageId :: "string option"
  CreationDate :: "string option"
  RootDeviceName :: "string option"

record DescribeImagesOutput =
  Images :: "Image list"

record IamInstanceProfileSpecification =
  iipName :: "string option"

record ec2TagSpecification =
  ResourceType :: "string option"
  etsTags :: "Tag list"

record InstanceNetworkInterfaceSpecification =
  niDeviceIndex :: "int option"
  niSubnetId :: "string option"
  Groups :: "string option list"
  AssociateCarrierIpAddress :: "bool option"
  AssociatePublicIpAddress :: "bool option"
  InterfaceType :: "string option"

record ec2Placement =
  epAvailabilityZone :: "string option"
  epGroupName :: "string option"
  PartitionNumber :: "int option"
  epTenancy :: "string option"

record InstanceMetadataOptionsRequest =
  HttpTokens :: "string option"

record EbsBlockDevice =
  ebsVolumeSize :: "int option"
  ebsVolumeType :: "string option"
  ebsEncrypted :: "bool option"
  DeleteOnTermination :: "bool option"
  ebsIops :: "int option"
  KmsKeyId :: "string option"

record ec2BlockDeviceMapping =
  bdmDeviceName :: "string option"
  Ebs :: "EbsBlockDevice option"

record RunInstancesInput =
  riImageId :: "string option"
  riInstanceType :: "string option"
  MinCount :: "int option"
  MaxCount :: "int option"
  riKeyName :: "string option"
  IamInstanceProfile :: "IamInstanceProfileSpecification option"
  riTagSpecifications :: "ec2TagSpecification list"
  NetworkInterfaces :: "InstanceNetworkInterfaceSpecification list"
  UserData :: "string option"
  riPlacement :: "ec2Placement option"
  MetadataOptions :: "InstanceMetadataOptionsRequest option"
  InstanceMarketOptions :: "InstanceMarketOptionsRequest option"
  riCapacityReservationSpecification :: "CapacityReservationSpecification option"
  BlockDeviceMappings :: "ec2BlockDeviceMapping list"

record InstanceState =
  isName :: "string option"

record Instance =
  InstanceId :: "string option"
  State :: "InstanceState option"

record Reservation =
  Instances :: "Instance list"

record DescribeInstancesInput =
  dinFilters :: "ec2Filter list"

record DescribeInstancesOutput =
  Reservations :: "Reservation list"

record PlacementGroup =
  pgGroupName :: "string option"
  pgGroupId :: "string option"
  pgStrategy :: "string option"
  pgPartitionCount :: "int option"
  pgTags :: "Tag list"

record DescribePlacementGroupsInput =
  GroupNames :: "string option list"

record DescribePlacementGroupsOutput =
  PlacementGroups :: "PlacementGroup option list"

record CreatePlacementGroupInput =
  cpgGroupName :: "string option"
  cpgTagSpecifications :: "ec2TagSpecification list"
  cpgStrategy :: "string option"
  cpgPartitionCount :: "int option"

record CreatePlacementGroupOutput =
  cpgPlacementGroup :: "PlacementGroup option"

record DeletePlacementGroupInput =
  dpgGroupName :: "string option"

datatype DeletePlacementGroupOutput = DeletePlacementGroupOutput

text \<open>\<open>metrics.MachineLabels\<close>, as \<open>metrics.RegisterFailedInstanceCreate\<close> receives it.\<close>

record MachineLabels =
  mlName :: string
  mlNamespace :: string
  mlReason :: string

text \<open>
  \<open>awsclient.Client\<close> is an interface: a client is a record of its methods, for the methods
  that the actuators call. A method takes the input and the state of the world \<open>'s\<close> (the
  cloud behind the client) and returns the pair \<open>(output, err)\<close> of Go, each possibly
  \<open>nil\<close>, and the next state. The failure counter of \<open>metrics\<close> acts on the same state.
\<close>

record 's Client =
  DescribeSecurityGroups ::
    "DescribeSecurityGroupsInput \<Rightarrow> 's \<Rightarrow> (DescribeSecurityGroupsOutput option \<times> error option) \<times> 's"
  DescribeAvailabilityZones ::
    "DescribeAvailabilityZonesInput \<Rightarrow> 's \<Rightarrow>
       (DescribeAvailabilityZonesOutput option \<times> error option) \<times> 's"
  DescribeSubnets ::
    "DescribeSubnetsInput \<Rightarrow> 's \<Rightarrow> (DescribeSubnetsOutput option \<times> error option) \<times> 's"
  DescribeImages ::
    "DescribeImagesInput \<Rightarrow> 's \<Rightarrow> (DescribeImagesOutput option \<times> error option) \<times> 's"
  RunInstances ::
    "RunInstancesInput \<Rightarrow> 's \<Rightarrow> (Reservation option \<times> error option) \<times> 's"
  DescribeInstances ::
    "DescribeInstancesInput \<Rightarrow> 's \<Rightarrow> (DescribeInstancesOutput option \<times> error option) \<times> 's"
  DescribePlacementGroups ::
    "DescribePlacementGroupsInput \<Rightarrow> 's \<Rightarrow>
       (DescribePlacementGroupsOutput option \<times> error option) \<times> 's"
  CreatePlacementGroup ::
    "CreatePlacementGroupInput \<Rightarrow> 's \<Rightarrow>
       (CreatePlacementGroupOutput option \<times> error option) \<times> 's"
  DeletePlacementGroup ::
    "DeletePlacementGroupInput \<Rightarrow> 's \<Rightarrow>
       (DeletePlacementGroupOutput option \<times> error option) \<times> 's"
  RegisterFailedInstanceCreate :: "MachineLabels \<Rightarrow> 's \<Rightarrow> 's"

text \<open>
  What a run does to the world is observed through a client that writes down every call,
  with its input and its answer, behind the state of the client it wraps.
\<close>

datatype event =
    DescribeSecurityGroupsCall DescribeSecurityGroupsInput
      "DescribeSecurityGroupsOutput option \<times> error option"
  | DescribeAvailabilityZonesCall DescribeAvailabilityZonesInput
      "DescribeAvailabilityZonesOutput option \<times> error option"
  | DescribeSubnetsCall DescribeSubnetsInput "DescribeSubnetsOutput option \<times> error option"
  | DescribeImagesCall DescribeImagesInput "DescribeImagesOutput option \<times> error option"
  | RunInstancesCall RunInstancesInput "Reservation option \<times> error option"
  | DescribeInstancesCall DescribeInstancesInput "DescribeInstancesOutput option \<times> error option"
  | DescribePlacementGroupsCall DescribePlacementGroupsInput
      "DescribePlacementGroupsOutput option \<times> error option"
  | CreatePlacementGroupCall CreatePlacementGroupInput
      "CreatePlacementGroupOutput option \<times> error option"
  | DeletePlacementGroupCall DeletePlacementGroupInput
      "DeletePlacementGroupOutput option \<times> error option"
  | RegisterFailedInstanceCreateCall MachineLabels

definition record_call ::
  "('i \<Rightarrow> 'r \<Rightarrow> event) \<Rightarrow> ('i \<Rightarrow> 'w \<Rightarrow> 'r \<times> 'w) \<Rightarrow>
     'i \<Rightarrow> 'w \<times> event list \<Rightarrow> 'r \<times> ('w \<times> event list)" where
  "record_call ev f inp s =
     (case s of (w, tr) \<Rightarrow> (case f inp w of (r, w') \<Rightarrow> (r, (w', tr @ [ev inp r]))))"

definition recording :: "'w Client \<Rightarrow> ('w \<times> event list) Client" where
  "recording c =
     \<lparr>DescribeSecurityGroups = record_call DescribeSecurityGroupsCall (DescribeSecurityGroups c),
      DescribeAvailabilityZones =
        record_call DescribeAvailabilityZonesCall (DescribeAvailabilityZones c),
      DescribeSubnets = record_call DescribeSubnetsCall (DescribeSubnets c),
      DescribeImages = record_call DescribeImagesCall (DescribeImages c),
      RunInstances = record_call RunInstancesCall (RunInstances c),
      DescribeInstances = record_call DescribeInstancesCall (DescribeInstances c),
      DescribePlacementGroups =
        record_call DescribePlacementGroupsCall (DescribePlacementGroups c),
      CreatePlacementGroup = record_call CreatePlacementGroupCall (CreatePlacementGroup c),
      DeletePlacementGroup = record_call DeletePlacementGroupCall (DeletePlacementGroup c),
      RegisterFailedInstanceCreate =
        (\<lambda>labels s. case s of (w, tr) \<Rightarrow>
           (RegisterFailedInstanceCreate c labels w,
            tr @ [RegisterFailedInstanceCreateCall labels]))\<rparr>"

text \<open>
  A panic is not an error that a caller can wrap: a caller passes it on as it is.
\<close>

definition isPanic :: "error \<Rightarrow> bool" where
  "isPanic e = (e = NilPointerDereference \<or> e = IndexOutOfRange)"

section \<open>Launching an instance (package machine, instances.go)\<close>

text \<open>
  \<open>machinev1beta1.Machine\<close> with its name, namespace and labels, and the object key
  built from it.
\<close>

record Machine =
  mName :: string
  mNamespace :: string
  mLabels :: "(string \<times> string) list"

record ObjectKey =
  okName :: string
  okNamespace :: string

text \<open>
  What the package takes from outside this file: \<open>time.Parse\<close> with the layout
  \<open>time.RFC3339\<close> (an instant is an integer, \<open>Before\<close> is \<open><\<close>),
  \<open>base64.StdEncoding.EncodeToString\<close>, and \<open>getClusterID\<close>, which reads the cluster
  label of a machine. They are parameters of the model.
\<close>

record Externals =
  ParseRFC3339 :: "string \<Rightarrow> error + int"
  EncodeToString :: "string \<Rightarrow> string"
  getClusterID :: "Machine \<Rightarrow> string \<times> bool"

text \<open>\<open>strconv.Itoa\<close>: the decimal digits, after a minus sign for a negative number.\<close>

fun digits :: "nat \<Rightarrow> string" where
  "digits n = (if n < 10 then [char_of (48 + n)] else digits (n div 10) @ [char_of (48 + n mod 10)])"

definition Itoa :: "int \<Rightarrow> string" where
  "Itoa i = (if i < 0 then CHR ''-'' # digits (nat (- i)) else digits (nat i))"

definition buildEC2Filters :: "Filter list \<Rightarrow> ec2Filter list" where
  "buildEC2Filters inputFilters =
     map (\<lambda>f. \<lparr>efName = Some (fName f), efValues = map Some (fValues f)\<rparr>) inputFilters"

text \<open>\<open>len\<close> of a slice that may be \<open>nil\<close>, and its elements.\<close>

definition elems :: "'a list option \<Rightarrow> 'a list" where
  "elems xs = (case xs of None \<Rightarrow> [] | Some ys \<Rightarrow> ys)"

text \<open>
  \<open>getSecurityGroupsIDs\<close>: the inner loop dereferences the id of every group found, the
  outer loop runs over the references of the configuration.
\<close>

fun groupIDsOf :: "SecurityGroup list \<Rightarrow> error + string option list" where
  "groupIDsOf [] = Inr []"
| "groupIDsOf (g # gs) =
     (case GroupId g of
        None \<Rightarrow> Inl NilPointerDereference
      | Some groupID \<Rightarrow>
          (case groupIDsOf gs of
             Inl e \<Rightarrow> Inl e
           | Inr ids \<Rightarrow> Inr (Some groupID # ids)))"

fun getSecurityGroupsIDs_loop ::
  "AWSResourceReference list \<Rightarrow> 's Client \<Rightarrow> string option list \<Rightarrow> 's \<Rightarrow>
     (error + string option list) \<times> 's" where
  "getSecurityGroupsIDs_loop [] client securityGroupIDs s = (Inr securityGroupIDs, s)"
| "getSecurityGroupsIDs_loop (g # gs) client securityGroupIDs s =
     (case ID g of
        Some i \<Rightarrow> getSecurityGroupsIDs_loop gs client (securityGroupIDs @ [Some i]) s
      | None \<Rightarrow>
          (case Filters g of
             None \<Rightarrow> getSecurityGroupsIDs_loop gs client securityGroupIDs s
           | Some fs \<Rightarrow>
               (case DescribeSecurityGroups client \<lparr>dsgFilters = buildEC2Filters fs\<rparr> s of
                  ((out, Some err), s1) \<Rightarrow>
                    (Inl (Errorf ''error describing security groups: %v'' [E err]), s1)
                | ((None, None), s1) \<Rightarrow> (Inl NilPointerDereference, s1)
                | ((Some out, None), s1) \<Rightarrow>
                    (case groupIDsOf (dsgSecurityGroups out) of
                       Inl e \<Rightarrow> (Inl e, s1)
                     | Inr ids \<Rightarrow>
                         getSecurityGroupsIDs_loop gs client (securityGroupIDs @ ids) s1))))"

definition getSecurityGroupsIDs ::
  "AWSResourceReference list \<Rightarrow> 's Client \<Rightarrow> 's \<Rightarrow> (error + string option list) \<times> 's" where
  "getSecurityGroupsIDs securityGroups client s =
     (case getSecurityGroupsIDs_loop securityGroups client [] s of
        (Inl e, s1) \<Rightarrow> (Inl e, s1)
      | (Inr securityGroupIDs, s1) \<Rightarrow>
          if length securityGroupIDs = 0
          then (Inl (Errorf ''no security group found'' []), s1)
          else (Inr securityGroupIDs, s1))"

definition getAvalabilityZoneFromSubnetID ::
  "string \<Rightarrow> 's Client \<Rightarrow> 's \<Rightarrow> (error + string) \<times> 's" where
  "getAvalabilityZoneFromSubnetID subnetID client s =
     (case DescribeSubnets client
             \<lparr>dsDryRun = Some False, SubnetIds = [Some subnetID], dsFilters = []\<rparr> s of
        ((out, Some err), s1) \<Rightarrow> (Inl (Errorf ''could not describe a subnet: %w'' [E err]), s1)
      | ((None, None), s1) \<Rightarrow>
          (Inl (Errorf ''resulting subnet is not expected to be nil'' []), s1)
      | ((Some result, None), s1) \<Rightarrow>
          (case Subnets result of
             sn # rest \<Rightarrow> (Inr (StringValue (snAvailabilityZone sn)), s1)
           | [] \<Rightarrow>
               (Inl (Errorf ''could not get an availability zone from a subnet id'' []), s1)))"

definition getAvalabilityZoneTypeFromZoneName ::
  "string \<Rightarrow> 's Client \<Rightarrow> 's \<Rightarrow> (error + string) \<times> 's" where
  "getAvalabilityZoneTypeFromZoneName zoneName client s =
     (case DescribeAvailabilityZones client
             \<lparr>dazDryRun = Some False, ZoneNames = [Some zoneName]\<rparr> s of
        ((out, Some err), s1) \<Rightarrow> (Inl (Errorf ''could not describe a zones: %w'' [E err]), s1)
      | ((None, None), s1) \<Rightarrow>
          (Inl (Errorf ''resulting zones is not expected to be nil'' []), s1)
      | ((Some result, None), s1) \<Rightarrow>
          (case AvailabilityZones result of
             z # rest \<Rightarrow> (Inr (StringValue (ZoneType z)), s1)
           | [] \<Rightarrow>
               (Inl (Errorf ''could not get an availability zone type from a zone name'' []),
                s1)))"

fun subnetIDsOf :: "ec2Subnet list \<Rightarrow> error + string option list" where
  "subnetIDsOf [] = Inr []"
| "subnetIDsOf (n # ns) =
     (case SubnetId n of
        None \<Rightarrow> Inl NilPointerDereference
      | Some subnetID \<Rightarrow>
          (case subnetIDsOf ns of
             Inl e \<Rightarrow> Inl e
           | Inr ids \<Rightarrow> Inr (Some subnetID # ids)))"

text \<open>
  \<open>getSubnetIDs\<close>. With a subnet id, a failed look-up of its availability zone is logged
  and the id is returned all the same. Without one, the availability zone (when given) is
  described first, for the sake of the error message only, and becomes the first filter.
\<close>

definition getSubnetIDs ::
  "ObjectKey \<Rightarrow> AWSResourceReference \<Rightarrow> string \<Rightarrow> 's Client \<Rightarrow> 's \<Rightarrow>
     (error + string option list) \<times> 's" where
  "getSubnetIDs machine subnet availabilityZone client s =
     (case ID subnet of
        Some subnetID \<Rightarrow>
          (case getAvalabilityZoneFromSubnetID subnetID client s of
             (Inl err, s1) \<Rightarrow> (Inr [Some subnetID], s1)
           | (Inr availabilityZoneFromSubnetID, s1) \<Rightarrow> (Inr [Some subnetID], s1))
      | None \<Rightarrow>
          (case (if availabilityZone \<noteq> []
                 then
                   (case DescribeAvailabilityZones client
                           \<lparr>dazDryRun = None, ZoneNames = [Some availabilityZone]\<rparr> s of
                      ((out, Some err), s1) \<Rightarrow>
                        (Inl (Errorf ''error describing availability zones: %v'' [E err]),
                         RegisterFailedInstanceCreate client
                           \<lparr>mlName = okName machine, mlNamespace = okNamespace machine,
                            mlReason = ''error describing availability zones''\<rparr> s1)
                    | ((out, None), s1) \<Rightarrow>
                        (Inr [\<lparr>fName = ''availabilityZone'', fValues = [availabilityZone]\<rparr>],
                         s1))
                 else (Inr [], s)) of
             (Inl e, s1) \<Rightarrow> (Inl e, s1)
           | (Inr filters, s1) \<Rightarrow>
               (case DescribeSubnets client
                       \<lparr>dsDryRun = None, SubnetIds = [],
                        dsFilters = buildEC2Filters (filters @ elems (Filters subnet))\<rparr> s1 of
                  ((out, Some err), s2) \<Rightarrow>
                    (Inl (Errorf ''error describing subnets: %v'' [E err]),
                     RegisterFailedInstanceCreate client
                       \<lparr>mlName = okName machine, mlNamespace = okNamespace machine,
                        mlReason = ''error describing subnets''\<rparr> s2)
                | ((None, None), s2) \<Rightarrow> (Inl NilPointerDereference, s2)
                | ((Some out, None), s2) \<Rightarrow>
                    (case subnetIDsOf (Subnets out) of
                       Inl e \<Rightarrow> (Inl e, s2)
                     | Inr subnetIDs \<Rightarrow>
                         if length subnetIDs = 0
                         then (Inl (Errorf ''no subnet IDs were found'' []), s2)
                         else (Inr subnetIDs, s2)))))"

text \<open>
  \<open>getAMI\<close>: the loop over the images after the first one, with the latest image and its
  time so far. The error messages dereference the image id.
\<close>

fun getAMI_loop ::
  "(string \<Rightarrow> error + int) \<Rightarrow> Image list \<Rightarrow> Image \<Rightarrow> int \<Rightarrow> error + string option" where
  "getAMI_loop parse [] latestImage latestTime = Inr (ImageId latestImage)"
| "getAMI_loop parse (img # images) latestImage latestTime =
     (case CreationDate img of
        None \<Rightarrow> Inl NilPointerDereference
      | Some date \<Rightarrow>
          (case parse date of
             Inl err \<Rightarrow>
               (case ImageId img of
                  None \<Rightarrow> Inl NilPointerDereference
                | Some imageId \<Rightarrow>
                    Inl (Errorf ''unable to parse time for %q AMI: %v'' [S imageId, E err]))
           | Inr imageTime \<Rightarrow>
               if latestTime < imageTime
               then getAMI_loop parse images img imageTime
               else getAMI_loop parse images latestImage latestTime))"

definition getAMI ::
  "Externals \<Rightarrow> ObjectKey \<Rightarrow> AWSResourceReference \<Rightarrow> 's Client \<Rightarrow> 's \<Rightarrow>
     (error + string option) \<times> 's" where
  "getAMI ext machine ami client s =
     (case ID ami of
        Some amiID \<Rightarrow> (Inr (Some amiID), s)
      | None \<Rightarrow>
          if length (elems (Filters ami)) > 0 then
            (case DescribeImages client
                    \<lparr>diFilters = buildEC2Filters (elems (Filters ami)), ImageIds = []\<rparr> s of
               ((out, Some err), s1) \<Rightarrow>
                 (Inl (Errorf ''error describing AMI: %v'' [E err]),
                  RegisterFailedInstanceCreate client
                    \<lparr>mlName = okName machine, mlNamespace = okNamespace machine,
                     mlReason = ''error describing AMI''\<rparr> s1)
             | ((None, None), s1) \<Rightarrow> (Inl NilPointerDereference, s1)
             | ((Some describeAMIResult, None), s1) \<Rightarrow>
                 (case Images describeAMIResult of
                    [] \<Rightarrow> (Inl (Errorf ''no image for given filters not found'' []), s1)
                  | latestImage # images \<Rightarrow>
                      (case CreationDate latestImage of
                         None \<Rightarrow> (Inl NilPointerDereference, s1)
                       | Some date \<Rightarrow>
                           (case ParseRFC3339 ext date of
                              Inl err \<Rightarrow>
                                (case ImageId latestImage of
                                   None \<Rightarrow> (Inl NilPointerDereference, s1)
                                 | Some imageId \<Rightarrow>
                                     (Inl (Errorf ''unable to parse time for %q AMI: %v''
                                             [S imageId, E err]), s1))
                            | Inr latestTime \<Rightarrow>
                                (getAMI_loop (ParseRFC3339 ext) images latestImage latestTime,
                                 s1)))))
          else (Inl (Errorf ''AMI ID or AMI filters need to be specified'' []), s))"

text \<open>
  \<open>getBlockDeviceMappings\<close>: the loop over the block devices of the configuration, with
  the first image found for the AMI, the flag \<open>rootDeviceFound\<close> and the mappings so far.
\<close>

fun getBlockDeviceMappings_loop ::
  "BlockDeviceMappingSpec list \<Rightarrow> Image \<Rightarrow> bool \<Rightarrow> ec2BlockDeviceMapping list \<Rightarrow>
     error + ec2BlockDeviceMapping list" where
  "getBlockDeviceMappings_loop [] img rootDeviceFound blockDeviceMappings =
     Inr blockDeviceMappings"
| "getBlockDeviceMappings_loop (spec # specs) img rootDeviceFound blockDeviceMappings =
     (case EBS spec of
        None \<Rightarrow> getBlockDeviceMappings_loop specs img rootDeviceFound blockDeviceMappings
      | Some ebs \<Rightarrow>
          if DeviceName spec = None \<and> rootDeviceFound
          then Inl (New ''non root device must have name'')
          else
            let deviceName =
                  (if DeviceName spec = None then RootDeviceName img else DeviceName spec);
                iops =
                  (if StringValue (VolumeType ebs) \<in> {''io1'', ''io2'', ''gp3''}
                      \<and> (case Iops ebs of None \<Rightarrow> False | Some i \<Rightarrow> i > 0)
                   then Iops ebs else None);
                kmsKeyId =
                  (if StringValue (ID (KMSKey ebs)) \<noteq> [] then ID (KMSKey ebs)
                   else if StringValue (ARN (KMSKey ebs)) \<noteq> [] then ARN (KMSKey ebs)
                   else None)
            in getBlockDeviceMappings_loop specs img
                 (rootDeviceFound \<or> DeviceName spec = None)
                 (blockDeviceMappings @
                    [\<lparr>bdmDeviceName = deviceName,
                      Ebs = Some \<lparr>ebsVolumeSize = VolumeSize ebs, ebsVolumeType = VolumeType ebs,
                                   ebsEncrypted = Encrypted ebs,
                                   DeleteOnTermination = Some True,
                                   ebsIops = iops, KmsKeyId = kmsKeyId\<rparr>\<rparr>]))"

definition getBlockDeviceMappings ::
  "ObjectKey \<Rightarrow> BlockDeviceMappingSpec list \<Rightarrow> string \<Rightarrow> 's Client \<Rightarrow> 's \<Rightarrow>
     (error + ec2BlockDeviceMapping list) \<times> 's" where
  "getBlockDeviceMappings machine blockDeviceMappingSpecs ami client s =
     (if length blockDeviceMappingSpecs = 0 then (Inr [], s)
      else
        (case DescribeImages client \<lparr>diFilters = [], ImageIds = [Some ami]\<rparr> s of
           ((out, Some err), s1) \<Rightarrow>
             (Inl (Errorf ''error describing AMI: %v'' [E err]),
              RegisterFailedInstanceCreate client
                \<lparr>mlName = okName machine, mlNamespace = okNamespace machine,
                 mlReason = ''error describing AMI''\<rparr> s1)
         | ((None, None), s1) \<Rightarrow> (Inl NilPointerDereference, s1)
         | ((Some describeAMIResult, None), s1) \<Rightarrow>
             (case Images describeAMIResult of
                [] \<Rightarrow> (Inl (Errorf ''no image for given AMI not found'' []), s1)
              | img # rest \<Rightarrow>
                  (getBlockDeviceMappings_loop blockDeviceMappingSpecs img False [], s1))))"

text \<open>
  \<open>constructInstancePlacement\<close>; a placement with no field set is returned as \<open>nil\<close>.
\<close>

definition constructInstancePlacement ::
  "AWSMachineProviderConfig \<Rightarrow> error + ec2Placement option" where
  "constructInstancePlacement machineProviderConfig =
     (let placement =
            \<lparr>epAvailabilityZone =
               (if AvailabilityZone (Placement machineProviderConfig) \<noteq> []
                   \<and> ID (Subnet machineProviderConfig) = None
                then Some (AvailabilityZone (Placement machineProviderConfig)) else None),
             epGroupName =
               (if PlacementGroupName machineProviderConfig \<noteq> []
                then Some (PlacementGroupName machineProviderConfig) else None),
             PartitionNumber =
               (if PlacementGroupName machineProviderConfig \<noteq> []
                then PlacementGroupPartition machineProviderConfig else None),
             epTenancy = None\<rparr>;
          instanceTenancy = Tenancy (Placement machineProviderConfig)
      in
        if instanceTenancy \<noteq> [] \<and> instanceTenancy \<notin> {''default'', ''dedicated'', ''host''}
        then Inl (InvalidMachineConfiguration
                    ''invalid instance tenancy: %s. Allowed options are: %s,%s,%s''
                    [S instanceTenancy, S ''default'', S ''dedicated'', S ''host''])
        else
          let placement' =
                (if instanceTenancy = [] then placement
                 else placement\<lparr>epTenancy := Some instanceTenancy\<rparr>)
          in if placement' = \<lparr>epAvailabilityZone = None, epGroupName = None,
                               PartitionNumber = None, epTenancy = None\<rparr>
             then Inr None else Inr (Some placement'))"

definition getInstanceMetadataOptionsRequest ::
  "AWSMachineProviderConfig \<Rightarrow> InstanceMetadataOptionsRequest option" where
  "getInstanceMetadataOptionsRequest providerConfig =
     (let authentication = Authentication (MetadataServiceOptions providerConfig);
          imdsOptions =
            \<lparr>HttpTokens =
               (if authentication = ''Optional'' then Some ''optional''
                else if authentication = ''Required'' then Some ''required''
                else None)\<rparr>
      in if imdsOptions = \<lparr>HttpTokens = None\<rparr> then None else Some imdsOptions)"

text \<open>
  The error that \<open>launchInstance\<close> returns for a failed \<open>RunInstances\<close>: an invalid
  configuration when the error is a request failure whose status code, written in decimal,
  starts with the digit 4, a failed creation otherwise.
\<close>

definition runInstancesError :: "error \<Rightarrow> error" where
  "runInstancesError err =
     (case err of
        RequestFailure code message statusCode \<Rightarrow>
          if HasPrefix (Itoa statusCode) ''4''
          then InvalidMachineConfiguration ''error launching instance: %v'' [S message]
          else CreateMachine ''error creating EC2 instance: %v'' [E err]
      | _ \<Rightarrow> CreateMachine ''error creating EC2 instance: %v'' [E err])"

text \<open>
  The block of \<open>launchInstance\<close> that sets the address attribute of the network interface
  when \<open>PublicIP\<close> is set: the zone of the subnet is looked up, then the type of the zone;
  in a Wavelength zone the carrier attribute is set, in any other zone the public one.
  The subnet id dereferenced is the one the interface was built with.
\<close>

definition launchInstance_publicIP ::
  "AWSMachineProviderConfig \<Rightarrow> InstanceNetworkInterfaceSpecification \<Rightarrow> 's Client \<Rightarrow> 's \<Rightarrow>
     (error + InstanceNetworkInterfaceSpecification) \<times> 's" where
  "launchInstance_publicIP machineProviderConfig networkInterface awsClient s =
     (case PublicIP machineProviderConfig of
        None \<Rightarrow> (Inr networkInterface, s)
      | Some publicIP \<Rightarrow>
          (case niSubnetId networkInterface of
             None \<Rightarrow> (Inl NilPointerDereference, s)
           | Some subnetID \<Rightarrow>
               (case getAvalabilityZoneFromSubnetID subnetID awsClient s of
                  (Inl err, s1) \<Rightarrow>
                    (Inl (InvalidMachineConfiguration
                            ''error discoverying zone type: %v'' [E err]), s1)
                | (Inr zoneName, s1) \<Rightarrow>
                    (case getAvalabilityZoneTypeFromZoneName zoneName awsClient s1 of
                       (Inl err, s2) \<Rightarrow>
                         (Inl (InvalidMachineConfiguration
                                 ''error discoverying zone type: %v'' [E err]), s2)
                     | (Inr zoneType, s2) \<Rightarrow>
                         if zoneType = ''wavelength-zone''
                         then (Inr (networkInterface
                                 \<lparr>AssociateCarrierIpAddress := Some publicIP\<rparr>), s2)
                         else (Inr (networkInterface
                                 \<lparr>AssociatePublicIpAddress := Some publicIP\<rparr>), s2)))))"

text \<open>The switch of \<open>launchInstance\<close> on the network interface type.\<close>

definition launchInstance_interfaceType ::
  "AWSMachineProviderConfig \<Rightarrow> InstanceNetworkInterfaceSpecification \<Rightarrow>
     error + InstanceNetworkInterfaceSpecification" where
  "launchInstance_interfaceType machineProviderConfig networkInterface =
     (if NetworkInterfaceType machineProviderConfig = ''ENA''
      then Inr (networkInterface\<lparr>InterfaceType := Some ''interface''\<rparr>)
      else if NetworkInterfaceType machineProviderConfig = ''EFA''
      then Inr (networkInterface\<lparr>InterfaceType := Some ''efa''\<rparr>)
      else if NetworkInterfaceType machineProviderConfig = []
      then Inr networkInterface
      else Inl (InvalidMachineConfiguration
             ''invalid value for networkInterfaceType %q, valid values are \"\", \"ENA\" and \"EFA\"''
             [S (NetworkInterfaceType machineProviderConfig)]))"

text \<open>
  What \<open>launchInstance\<close> returns for the answer of \<open>RunInstances\<close>: an error for an
  error, and the instance of a reservation with exactly one instance.
\<close>

definition launchInstance_result ::
  "Reservation option \<times> error option \<Rightarrow> error + Instance" where
  "launchInstance_result answer =
     (case answer of
        (runResult, Some err) \<Rightarrow> Inl (runInstancesError err)
      | (None, None) \<Rightarrow> Inl (CreateMachine ''unexpected reservation creating instance'' [])
      | (Some runResult, None) \<Rightarrow>
          (case Instances runResult of
             [instance] \<Rightarrow> Inr instance
           | _ \<Rightarrow> Inl (CreateMachine ''unexpected reservation creating instance'' [])))"

text \<open>
  \<open>launchInstance\<close>. An error of a helper is wrapped, a panic of a helper is passed on.
  The controller-runtime client is handed on to \<open>constructInstancePlacement\<close>, which does
  not use it, and is left out. The market type that \<open>getInstanceMarketOptionsRequest\<close>
  writes into the configuration is read by the caller only: the model returns the result
  and the state.
\<close>

definition launchInstance ::
  "Externals \<Rightarrow> Machine \<Rightarrow> AWSMachineProviderConfig \<Rightarrow> string \<Rightarrow> 's Client \<Rightarrow>
     Infrastructure option \<Rightarrow> 's \<Rightarrow> (error + Instance) \<times> 's" where
  "launchInstance ext machine machineProviderConfig userData awsClient infra s =
     (let machineKey = \<lparr>okName = mName machine, okNamespace = mNamespace machine\<rparr> in
      case getAMI ext machineKey (AMI machineProviderConfig) awsClient s of
        (Inl err, s1) \<Rightarrow>
          (if isPanic err then Inl err
           else Inl (InvalidMachineConfiguration ''error getting AMI: %v'' [E err]), s1)
      | (Inr amiID, s1) \<Rightarrow>
      (case getSecurityGroupsIDs (SecurityGroups machineProviderConfig) awsClient s1 of
        (Inl err, s2) \<Rightarrow>
          (if isPanic err then Inl err
           else Inl (InvalidMachineConfiguration ''error getting security groups IDs: %v''
                       [E err]), s2)
      | (Inr securityGroupsIDs, s2) \<Rightarrow>
      (case getSubnetIDs machineKey (Subnet machineProviderConfig)
              (AvailabilityZone (Placement machineProviderConfig)) awsClient s2 of
        (Inl err, s3) \<Rightarrow>
          (if isPanic err then Inl err
           else Inl (InvalidMachineConfiguration ''error getting subnet IDs: %v'' [E err]), s3)
      | (Inr subnetIDs, s3) \<Rightarrow>
      (case subnetIDs of
        [] \<Rightarrow> (Inl IndexOutOfRange, s3)
      | subnetID # moreSubnetIDs \<Rightarrow>
      (case launchInstance_publicIP machineProviderConfig
              \<lparr>niDeviceIndex = Some (DeviceIndex machineProviderConfig),
               niSubnetId = subnetID, Groups = securityGroupsIDs,
               AssociateCarrierIpAddress = None, AssociatePublicIpAddress = None,
               InterfaceType = None\<rparr> awsClient s3 of
        (Inl err, s5) \<Rightarrow> (Inl err, s5)
      | (Inr networkInterface1, s5) \<Rightarrow>
      (case launchInstance_interfaceType machineProviderConfig networkInterface1 of
        Inl err \<Rightarrow> (Inl err, s5)
      | Inr networkInterface2 \<Rightarrow>
      (case amiID of
        None \<Rightarrow> (Inl NilPointerDereference, s5)
      | Some ami \<Rightarrow>
      (case getBlockDeviceMappings machineKey (BlockDevices machineProviderConfig) ami
              awsClient s5 of
        (Inl err, s6) \<Rightarrow>
          (if isPanic err then Inl err
           else Inl (InvalidMachineConfiguration ''error getting blockDeviceMappings: %v''
                       [E err]), s6)
      | (Inr blockDeviceMappings, s6) \<Rightarrow>
      (case getClusterID ext machine of
        (clusterID, False) \<Rightarrow>
          (Inl (InvalidMachineConfiguration ''Unable to get cluster ID for machine: %q''
                  [S (mName machine)]), s6)
      | (clusterID, True) \<Rightarrow>
      (case buildTagList (mName machine) clusterID (Tags machineProviderConfig) infra of
        Inl err \<Rightarrow> (Inl err, s6)
      | Inr tagList \<Rightarrow>
      (case constructInstancePlacement machineProviderConfig of
        Inl err \<Rightarrow> (Inl err, s6)
      | Inr placement \<Rightarrow>
      (case getCapacityReservationSpecification
              (CapacityReservationID machineProviderConfig) of
        Inl err \<Rightarrow> (Inl err, s6)
      | Inr capacityReservationSpecification \<Rightarrow>
      (case getInstanceMarketOptionsRequest machineProviderConfig of
        (Inl err, machineProviderConfig') \<Rightarrow> (Inl err, s6)
      | (Inr instanceMarketOptions, machineProviderConfig') \<Rightarrow>
      (case RunInstances awsClient
              \<lparr>riImageId = amiID,
               riInstanceType = Some (InstanceType machineProviderConfig'),
               MinCount = Some 1,
               MaxCount = Some 1,
               riKeyName = KeyName machineProviderConfig',
               IamInstanceProfile =
                 (case IAMInstanceProfile machineProviderConfig of
                    None \<Rightarrow> None
                  | Some profile \<Rightarrow>
                      (case ID profile of
                         None \<Rightarrow> None
                       | Some profileID \<Rightarrow> Some \<lparr>iipName = Some profileID\<rparr>)),
               riTagSpecifications =
                 [\<lparr>ResourceType = Some ''instance'', etsTags = tagList\<rparr>,
                  \<lparr>ResourceType = Some ''volume'', etsTags = tagList\<rparr>],
               NetworkInterfaces = [networkInterface2],
               UserData = Some (EncodeToString ext userData),
               riPlacement = placement,
               MetadataOptions = getInstanceMetadataOptionsRequest machineProviderConfig',
               InstanceMarketOptions = instanceMarketOptions,
               riCapacityReservationSpecification = capacityReservationSpecification,
               BlockDeviceMappings =
                 (if length blockDeviceMappings > 0 then blockDeviceMappings else [])\<rparr>
              s6 of
        ((runResult, Some err), s7) \<Rightarrow>
          (launchInstance_result (runResult, Some err),
           RegisterFailedInstanceCreate awsClient
             \<lparr>mlName = mName machine, mlNamespace = mNamespace machine,
              mlReason = ''error creating EC2 instance''\<rparr> s7)
      | ((runResult, None), s7) \<Rightarrow>
          (launchInstance_result (runResult, None), s7)))))))))))))))"


fun isRunInstancesCall :: "event \<Rightarrow> bool" where
  "isRunInstancesCall (RunInstancesCall inp r) = True"
| "isRunInstancesCall e = False"


definition exampleMachine :: Machine where
  "exampleMachine = \<lparr>mName = ''machineName'', mNamespace = ''openshift-machine-api'',
     mLabels = [(''machine.openshift.io/cluster-api-cluster'', ''clusterID'')]\<rparr>"


text \<open>
  A run from a state to a state of a recording client that only adds events, none of which
  has the property \<open>P\<close>.
\<close>

definition extendsWithout ::
  "(event \<Rightarrow> bool) \<Rightarrow> 'w \<times> event list \<Rightarrow> 'w \<times> event list \<Rightarrow> bool" where
  "extendsWithout P s s' = (\<exists>ex. snd s' = snd s @ ex \<and> (\<forall>e \<in> set ex. \<not> P e))"

section \<open>Properties of the tag list\<close>

lemma filter_eqI: "(\<And>x. x \<in> set xs \<Longrightarrow> P x = Q x) \<Longrightarrow> filter P xs = filter Q xs"
  by (rule filter_cong) auto

lemma removeDuplicatedTags_loop_firstOccurrences:
  "removeDuplicatedTags_loop (map (\<lambda>tag. \<lparr>Key = Some (tsName tag), Value = Some (tsValue tag)\<rparr>) xs) m result =
     Inr (result @ map (\<lambda>tag. \<lparr>Key = Some (tsName tag), Value = Some (tsValue tag)\<rparr>)
            (filter (\<lambda>t. m (tsName t) = None) (firstOccurrences xs)))"
proof (induction xs arbitrary: m result)
  case Nil
  show ?case by simp
next
  case (Cons t ts)
  let ?mk = "\<lambda>tag. \<lparr>Key = Some (tsName tag), Value = Some (tsValue tag)\<rparr>"
  show ?case
  proof (cases "m (tsName t) = None")
    case True
    have step: "removeDuplicatedTags_loop (map ?mk (t # ts)) m result =
        removeDuplicatedTags_loop (map ?mk ts) (m(tsName t \<mapsto> True)) (result @ [?mk t])"
      using True by simp
    have flt: "filter (\<lambda>u. m (tsName u) = None) (firstOccurrences (t # ts)) =
        t # filter (\<lambda>u. (m(tsName t \<mapsto> True)) (tsName u) = None) (firstOccurrences ts)"
      using True by (auto simp: filter_filter intro!: filter_eqI)
    show ?thesis by (simp only: step Cons.IH flt) simp
  next
    case False
    have step: "removeDuplicatedTags_loop (map ?mk (t # ts)) m result =
        removeDuplicatedTags_loop (map ?mk ts) m result"
      using False by auto
    have flt: "filter (\<lambda>u. m (tsName u) = None) (firstOccurrences (t # ts)) =
        filter (\<lambda>u. m (tsName u) = None) (firstOccurrences ts)"
      using False by (auto simp: filter_filter intro!: filter_eqI)
    show ?thesis by (simp only: step Cons.IH flt)
  qed
qed

lemma firstOccurrences_subset: "set (firstOccurrences xs) \<subseteq> set xs"
  by (induction xs) auto

lemma firstOccurrences_filter:
  "firstOccurrences (filter (\<lambda>t. P (tsName t)) xs) = filter (\<lambda>t. P (tsName t)) (firstOccurrences xs)"
proof (induction xs)
  case Nil show ?case by simp
next
  case (Cons a xs)
  show ?case
  proof (cases "P (tsName a)")
    case True
    have "filter (\<lambda>u. tsName u \<noteq> tsName a) (filter (\<lambda>t. P (tsName t)) (firstOccurrences xs)) =
          filter (\<lambda>t. P (tsName t)) (filter (\<lambda>u. tsName u \<noteq> tsName a) (firstOccurrences xs))"
      unfolding filter_filter by (rule filter_eqI) auto
    with True Cons.IH show ?thesis by simp
  next
    case False
    have "filter (\<lambda>t. P (tsName t)) (filter (\<lambda>u. tsName u \<noteq> tsName a) (firstOccurrences xs)) =
          filter (\<lambda>t. P (tsName t)) (firstOccurrences xs)"
      unfolding filter_filter using False by (intro filter_eqI) auto
    with False Cons.IH show ?thesis by simp
  qed
qed

lemma firstOccurrences_append:
  "\<forall>r \<in> set rs. tsName r \<notin> tsName ` set xs \<Longrightarrow>
   firstOccurrences (xs @ rs) = firstOccurrences xs @ firstOccurrences rs"
proof (induction xs)
  case Nil show ?case by simp
next
  case (Cons x xs)
  then have IH: "firstOccurrences (xs @ rs) = firstOccurrences xs @ firstOccurrences rs" by auto
  have "\<forall>u \<in> set (firstOccurrences rs). tsName u \<noteq> tsName x"
    using Cons.prems firstOccurrences_subset[of rs] by fastforce
  then have "filter (\<lambda>u. tsName u \<noteq> tsName x) (firstOccurrences rs) = firstOccurrences rs"
    by simp
  with IH show ?case by simp
qed


lemma mergeInfrastructureAndMachineSpecTags_append:
  "mergeInfrastructureAndMachineSpecTags machineTags infra = machineTags @ infrastructureTags infra"
  by (simp add: mergeInfrastructureAndMachineSpecTags_def infrastructureTags_def
      split: option.splits)

text \<open>
  Claim C1. For every machine name, cluster id, machine tag list and infrastructure object,
  \<open>buildTagList\<close> returns (and does not panic) the following list: the machine-spec tags
  followed by the infrastructure resource tags, of which the first occurrence of every key is
  kept and every tag whose key is \<open>Name\<close> or starts with \<open>kubernetes.io/cluster/\<close> is
  dropped, and then, last, the reserved pair \<open>kubernetes.io/cluster/<clusterID> = owned\<close>,
  \<open>Name = <machineName>\<close>.
\<close>

theorem buildTagList_reserved_pair_last:
  "buildTagList machineName clusterID machineTags infra =
     Inr (map (\<lambda>tag. \<lparr>Key = Some (tsName tag), Value = Some (tsValue tag)\<rparr>)
            (filter (\<lambda>tag. \<not> (tsName tag = ''Name'' \<or> prefix ''kubernetes.io/cluster/'' (tsName tag)))
               (firstOccurrences (machineTags @ infrastructureTags infra))) @
          [\<lparr>Key = Some (''kubernetes.io/cluster/'' @ clusterID), Value = Some ''owned''\<rparr>,
           \<lparr>Key = Some ''Name'', Value = Some machineName\<rparr>])"
proof -
  define merged where "merged = machineTags @ infrastructureTags infra"
  define keep where "keep = filter (\<lambda>tag. \<not> reservedKey (tsName tag)) merged"
  define r1 where "r1 = \<lparr>tsName = ''kubernetes.io/cluster/'' @ clusterID, tsValue = ''owned''\<rparr>"
  define r2 where "r2 = \<lparr>tsName = ''Name'', tsValue = machineName\<rparr>"
  let ?mk = "\<lambda>tag. \<lparr>Key = Some (tsName tag), Value = Some (tsValue tag)\<rparr>"
  have res: "reservedKey (tsName r1)" "reservedKey (tsName r2)" "tsName r1 \<noteq> tsName r2"
    by (simp_all add: r1_def r2_def reservedKey_def)
  have keep_eq: "filter (\<lambda>tag. \<not> HasPrefix (tsName tag) ''kubernetes.io/cluster/''
                              \<and> tsName tag \<noteq> ''Name'') merged = keep"
    unfolding keep_def by (rule filter_eqI) (auto simp: reservedKey_def HasPrefix_def)
  have raw: "buildTagList machineName clusterID machineTags infra =
      removeDuplicatedTags_loop (map ?mk (keep @ [r1, r2])) Map.empty []"
    unfolding buildTagList_def removeDuplicatedTags_def Let_def
      mergeInfrastructureAndMachineSpecTags_append merged_def[symmetric] keep_eq
    by (simp add: r1_def r2_def)
  have fresh: "\<forall>r \<in> set [r1, r2]. tsName r \<notin> tsName ` set keep"
    using res by (auto simp: keep_def)
  have fo2: "firstOccurrences [r1, r2] = [r1, r2]"
    using res by simp
  have app: "firstOccurrences (keep @ [r1, r2]) = firstOccurrences keep @ [r1, r2]"
    using firstOccurrences_append[OF fresh] fo2 by simp
  have fk: "firstOccurrences keep =
      filter (\<lambda>tag. \<not> reservedKey (tsName tag)) (firstOccurrences merged)"
    unfolding keep_def by (rule firstOccurrences_filter)
  have "buildTagList machineName clusterID machineTags infra =
      Inr (map ?mk (firstOccurrences keep @ [r1, r2]))"
    unfolding raw removeDuplicatedTags_loop_firstOccurrences app by simp
  also have "map ?mk (firstOccurrences keep @ [r1, r2]) =
      buildTagList_spec machineName clusterID machineTags infra"
    unfolding fk buildTagList_spec_def userTags_def reservedTags_def merged_def[symmetric]
    by (simp add: r1_def r2_def)
  finally show ?thesis
    by (simp add: buildTagList_spec_def userTags_def reservedTags_def reservedKey_def)
qed

text \<open>
  An example with duplicated keys, user tags on both reserved keys in the machine spec and in
  the infrastructure object, an infrastructure tag overridden by a machine tag, and an
  infrastructure tag of its own.
\<close>

theorem buildTagList_reserved_pair_last_example:
  "buildTagList ''machineName'' ''clusterID''
     [\<lparr>tsName = ''K'', tsValue = ''a''\<rparr>, \<lparr>tsName = ''K'', tsValue = ''b''\<rparr>,
      \<lparr>tsName = ''Name'', tsValue = ''badname''\<rparr>,
      \<lparr>tsName = ''kubernetes.io/cluster/clusterID'', tsValue = ''shared''\<rparr>,
      \<lparr>tsName = ''good'', tsValue = ''goodvalue''\<rparr>]
     (Some \<lparr>Status = \<lparr>InfrastructureName = ''infra'',
        PlatformStatus = Some \<lparr>AWS = Some \<lparr>Region = ''us-east-1'',
          ResourceTags = Some
            [\<lparr>rtKey = ''good'', rtValue = ''should-be-overwritten''\<rparr>,
             \<lparr>rtKey = ''kubernetes.io/cluster/badid'', rtValue = ''badvalue''\<rparr>,
             \<lparr>rtKey = ''Name'', rtValue = ''infraname''\<rparr>,
             \<lparr>rtKey = ''infraonly'', rtValue = ''v''\<rparr>]\<rparr>\<rparr>\<rparr>\<rparr>) =
   Inr [\<lparr>Key = Some ''K'', Value = Some ''a''\<rparr>,
        \<lparr>Key = Some ''good'', Value = Some ''goodvalue''\<rparr>,
        \<lparr>Key = Some ''infraonly'', Value = Some ''v''\<rparr>,
        \<lparr>Key = Some ''kubernetes.io/cluster/clusterID'', Value = Some ''owned''\<rparr>,
        \<lparr>Key = Some ''Name'', Value = Some ''machineName''\<rparr>]"
  using buildTagList_reserved_pair_last [of "''machineName''" "''clusterID''"
     "[\<lparr>tsName = ''K'', tsValue = ''a''\<rparr>, \<lparr>tsName = ''K'', tsValue = ''b''\<rparr>,
      \<lparr>tsName = ''Name'', tsValue = ''badname''\<rparr>,
      \<lparr>tsName = ''kubernetes.io/cluster/clusterID'', tsValue = ''shared''\<rparr>,
      \<lparr>tsName = ''good'', tsValue = ''goodvalue''\<rparr>]"
     "Some \<lparr>Status = \<lparr>InfrastructureName = ''infra'',
        PlatformStatus = Some \<lparr>AWS = Some \<lparr>Region = ''us-east-1'',
          ResourceTags = Some
            [\<lparr>rtKey = ''good'', rtValue = ''should-be-overwritten''\<rparr>,
             \<lparr>rtKey = ''kubernetes.io/cluster/badid'', rtValue = ''badvalue''\<rparr>,
             \<lparr>rtKey = ''Name'', rtValue = ''infraname''\<rparr>,
             \<lparr>rtKey = ''infraonly'', rtValue = ''v''\<rparr>]\<rparr>\<rparr>\<rparr>\<rparr>"]
  by (simp add: infrastructureTags_def)

section \<open>Properties of the market options\<close>

text \<open>
  Claim C2. For a provider configuration whose market type is unset: when spot market
  options are set (even empty ones), \<open>getInstanceMarketOptionsRequest\<close> returns a request with
  market type \<open>spot\<close>, interruption behaviour \<open>terminate\<close>, spot instance type \<open>one-time\<close>,
  and no maximum price when the configured maximum price is absent or empty (the configured
  price otherwise), and it records the market type \<open>Spot\<close> in the configuration; when there
  are no spot market options, it records the market type \<open>OnDemand\<close> and returns nil, without
  error.
\<close>

theorem getInstanceMarketOptionsRequest_inferred:
  "MarketType pc = [] \<Longrightarrow>
   getInstanceMarketOptionsRequest pc =
     (case SpotMarketOptions pc of
        Some so \<Rightarrow>
          (Inr (Some \<lparr>ec2MarketType = Some ''spot'',
                       SpotOptions = Some \<lparr>InstanceInterruptionBehavior = Some ''terminate'',
                                            SpotInstanceType = Some ''one-time'',
                                            ec2MaxPrice = (case MaxPrice so of
                                                             None \<Rightarrow> None
                                                           | Some p \<Rightarrow> if p = [] then None else Some p)\<rparr>\<rparr>),
           pc\<lparr>MarketType := ''Spot''\<rparr>)
      | None \<Rightarrow> (Inr None, pc\<lparr>MarketType := ''OnDemand''\<rparr>))"
  by (simp add: getInstanceMarketOptionsRequest_def Let_def MarketTypeSpot_def
      MarketTypeOnDemand_def MarketTypeCapacityBlock_def ec2MarketTypeSpot_def
      InstanceInterruptionBehaviorTerminate_def SpotInstanceTypeOneTime_def StringValue_def
      split: option.splits)

text \<open>
  Empty spot market options, spot market options with an empty maximum price, and no spot
  market options.
\<close>

theorem getInstanceMarketOptionsRequest_inferred_example:
  "getInstanceMarketOptionsRequest (emptyProviderConfig\<lparr>SpotMarketOptions := Some \<lparr>MaxPrice = None\<rparr>\<rparr>) =
     (Inr (Some \<lparr>ec2MarketType = Some ''spot'',
                  SpotOptions = Some \<lparr>InstanceInterruptionBehavior = Some ''terminate'',
                                       SpotInstanceType = Some ''one-time'',
                                       ec2MaxPrice = None\<rparr>\<rparr>),
      emptyProviderConfig\<lparr>SpotMarketOptions := Some \<lparr>MaxPrice = None\<rparr>, MarketType := ''Spot''\<rparr>)
   \<and> getInstanceMarketOptionsRequest (emptyProviderConfig\<lparr>SpotMarketOptions := Some \<lparr>MaxPrice = Some ''''\<rparr>\<rparr>) =
     (Inr (Some \<lparr>ec2MarketType = Some ''spot'',
                  SpotOptions = Some \<lparr>InstanceInterruptionBehavior = Some ''terminate'',
                                       SpotInstanceType = Some ''one-time'',
                                       ec2MaxPrice = None\<rparr>\<rparr>),
      emptyProviderConfig\<lparr>SpotMarketOptions := Some \<lparr>MaxPrice = Some ''''\<rparr>, MarketType := ''Spot''\<rparr>)
   \<and> getInstanceMarketOptionsRequest emptyProviderConfig =
     (Inr None, emptyProviderConfig\<lparr>MarketType := ''OnDemand''\<rparr>)"
  using getInstanceMarketOptionsRequest_inferred [of "emptyProviderConfig\<lparr>SpotMarketOptions := Some \<lparr>MaxPrice = None\<rparr>\<rparr>"]
    getInstanceMarketOptionsRequest_inferred [of "emptyProviderConfig\<lparr>SpotMarketOptions := Some \<lparr>MaxPrice = Some ''''\<rparr>\<rparr>"]
    getInstanceMarketOptionsRequest_inferred [of emptyProviderConfig]
  by (simp add: emptyProviderConfig_def)

section \<open>Properties of the capacity reservation\<close>

text \<open>
  The matcher on the repetition of a class, and on a literal followed by a pattern.
\<close>

lemma remainders_Rep_Class:
  "remainders (Rep n (Class rs)) s =
     (if n \<le> length s \<and> list_all (\<lambda>x. list_ex (\<lambda>(lo, hi). lo \<le> x \<and> x \<le> hi) rs) (take n s)
      then [drop n s] else [])"
proof (induction n arbitrary: s)
  case 0
  show ?case by simp
next
  case (Suc n)
  show ?case
  proof (cases s)
    case Nil
    then show ?thesis by simp
  next
    case (Cons a t)
    show ?thesis
    proof (cases "list_ex (\<lambda>(lo, hi). lo \<le> a \<and> a \<le> hi) rs")
      case True
      have "remainders (Class rs) s = [t]" using True Cons by simp
      then have "remainders (Rep (Suc n) (Class rs)) s = remainders (Rep n (Class rs)) t"
        by simp
      also have "\<dots> = (if n \<le> length t \<and> list_all (\<lambda>x. list_ex (\<lambda>(lo, hi). lo \<le> x \<and> x \<le> hi) rs) (take n t)
      then [drop n t] else [])" by (rule Suc.IH)
      finally show ?thesis using True Cons by simp
    next
      case False
      have "remainders (Class rs) s = []" using False Cons by simp
      then have "remainders (Rep (Suc n) (Class rs)) s = []"
        by simp
      then show ?thesis using False Cons by simp
    qed
  qed
qed

lemma remainders_Lit_Seq:
  "remainders (Seq (Lit c) r) s = (case s of [] \<Rightarrow> [] | x # xs \<Rightarrow> if x = c then remainders r xs else [])"
  by (cases s) simp_all

lemma hex_class:
  "list_ex (\<lambda>(lo, hi). lo \<le> x \<and> x \<le> hi) [(CHR ''0'', CHR ''9''), (CHR ''a'', CHR ''f'')] = lowerHexDigit x"
proof -
  obtain b0 b1 b2 b3 b4 b5 b6 b7 where x: "x = Char b0 b1 b2 b3 b4 b5 b6 b7" by (cases x)
  show ?thesis unfolding x lowerHexDigit_def
    by (cases b0; cases b1; cases b2; cases b3; cases b4; cases b5; cases b6; cases b7)
       (simp_all add: less_eq_char_def)
qed

lemma MatchString_capacityReservationPattern:
  "MatchString_anchored capacityReservationPattern s = validCapacityReservationID s"
proof -
  have tl: "(if 17 \<le> length t \<and> list_all lowerHexDigit (take 17 t) then [drop 17 t] else []) = L
      \<Longrightarrow> ([] \<in> set L) = (length t = 17 \<and> list_all lowerHexDigit t)" for t L
    by (auto split: if_splits)
  show ?thesis
  proof (cases s)
    case Nil then show ?thesis
      by (simp add: MatchString_anchored_def capacityReservationPattern_def validCapacityReservationID_def)
  next
    case (Cons a s1) note s = this
    show ?thesis
    proof (cases s1)
      case Nil then show ?thesis using s
        by (simp add: MatchString_anchored_def capacityReservationPattern_def validCapacityReservationID_def)
    next
      case (Cons b s2) note s1 = this
      show ?thesis
      proof (cases s2)
        case Nil then show ?thesis using s s1
          by (simp add: MatchString_anchored_def capacityReservationPattern_def validCapacityReservationID_def)
      next
        case (Cons c t)
        have L: "remainders capacityReservationPattern s =
            (if a = CHR ''c'' \<and> b = CHR ''r'' \<and> c = CHR ''-'' then
              (if 17 \<le> length t \<and> list_all lowerHexDigit (take 17 t) then [drop 17 t] else [])
             else [])"
          unfolding capacityReservationPattern_def s s1 Cons remainders_Lit_Seq remainders_Rep_Class hex_class
          by simp
        have R: "validCapacityReservationID s =
            (a = CHR ''c'' \<and> b = CHR ''r'' \<and> c = CHR ''-'' \<and> length t = 17 \<and> list_all lowerHexDigit t)"
          unfolding validCapacityReservationID_def s s1 Cons by auto
        show ?thesis
        proof (cases "a = CHR ''c'' \<and> b = CHR ''r'' \<and> c = CHR ''-''")
          case True
          then show ?thesis unfolding MatchString_anchored_def R
            using tl[of t "remainders capacityReservationPattern s"] L by simp
        next
          case False
          then show ?thesis unfolding MatchString_anchored_def R L by auto
        qed
      qed
    qed
  qed
qed

text \<open>
  Claim C3. \<open>getCapacityReservationSpecification\<close> returns nil and no error for the empty
  identifier; for a non-empty identifier that is 20 characters long, starts with \<open>cr-\<close> and
  continues with 17 characters among \<open>0\<close>..\<open>9\<close>, \<open>a\<close>..\<open>f\<close> (the identifiers that match
  \<^verbatim>\<open>^cr-[0-9a-f]{17}$\<close>) it returns a capacity reservation target with exactly that
  identifier; for every other identifier it returns an invalid-configuration machine error.
\<close>

theorem getCapacityReservationSpecification_pattern:
  "getCapacityReservationSpecification crid =
     (if crid = [] then Inr None
      else if length crid = 20 \<and> take 3 crid = ''cr-'' \<and> list_all lowerHexDigit (drop 3 crid)
      then Inr (Some \<lparr>CapacityReservationTarget = Some \<lparr>CapacityReservationId = Some crid\<rparr>\<rparr>)
      else Inl (MachineError InvalidConfigurationMachineError
        ''Invalid value for capacityReservationId: %q, it must start with 'cr-' and be exactly 20 characters long with 17 hexadecimal characters.''
        [S crid]))"
  unfolding getCapacityReservationSpecification_def MatchString_capacityReservationPattern
    InvalidMachineConfiguration_def validCapacityReservationID_def
  by simp

text \<open>The identifiers of the specification: empty, too short, with a capital letter, valid.\<close>

theorem getCapacityReservationSpecification_pattern_examples:
  "getCapacityReservationSpecification [] = Inr None
   \<and> getCapacityReservationSpecification ''cr-1234'' = Inl (MachineError InvalidConfigurationMachineError
        ''Invalid value for capacityReservationId: %q, it must start with 'cr-' and be exactly 20 characters long with 17 hexadecimal characters.''
        [S ''cr-1234''])
   \<and> getCapacityReservationSpecification ''cr-B234a67891234567A'' = Inl (MachineError InvalidConfigurationMachineError
        ''Invalid value for capacityReservationId: %q, it must start with 'cr-' and be exactly 20 characters long with 17 hexadecimal characters.''
        [S ''cr-B234a67891234567A''])
   \<and> getCapacityReservationSpecification ''cr-1234a6789d234f6f4'' =
        Inr (Some \<lparr>CapacityReservationTarget = Some \<lparr>CapacityReservationId = Some ''cr-1234a6789d234f6f4''\<rparr>\<rparr>)"
  using getCapacityReservationSpecification_pattern [of "[]"]
    getCapacityReservationSpecification_pattern [of "''cr-1234''"]
    getCapacityReservationSpecification_pattern [of "''cr-B234a67891234567A''"]
    getCapacityReservationSpecification_pattern [of "''cr-1234a6789d234f6f4''"]
  by (simp add: lowerHexDigit_def)

section \<open>Properties of the AMI look-up\<close>







end
